theory Spec2Isabelle
  imports Main
begin

section \<open>External collaborators\<close>

text \<open>
  The components call helpers of \<^verbatim>\<open>utils/blockchain\<close>, \<^verbatim>\<open>utils/ipfs\<close>,
  \<^verbatim>\<open>utils/supabase\<close> and \<^verbatim>\<open>utils/subscriptions\<close> and await their results. These
  helpers are parameters of the model. An awaited promise either resolves to a value
  (\<open>Inr v\<close>) or rejects with an error (\<open>Inl msg\<close>, where \<open>msg\<close> is \<^verbatim>\<open>err.message\<close>,
  the empty string when the error carries none).
\<close>

type_synonym 'a promise = "string + 'a"

text \<open>
  The \<^verbatim>\<open>Credential\<close> object returned by \<^verbatim>\<open>verifyCredential\<close>, with the fields the
  portal renders. The fields other than \<open>revoked\<close> carry a prefix, since the issuance
  form has fields of the same names.
\<close>

record credential =
  cred_tokenId :: string
  cred_student :: string
  cred_institution :: string
  cred_degree :: string
  cred_issueDate :: nat
  cred_ipfsHash :: string
  revoked :: bool

text \<open>The result of \<^verbatim>\<open>issueCredential\<close>: \<^verbatim>\<open>{ tokenId, txHash }\<close>.\<close>

record issued =
  tokenId_of :: string
  txHash_of :: string

text \<open>The object returned by \<^verbatim>\<open>getInstitutionStats\<close>.\<close>

record institutionStats =
  totalIssued :: nat
  totalRevoked :: nat
  recentIssued :: nat

text \<open>A \<^verbatim>\<open>File\<close> picked in the form, as its bytes; a zero-byte file is \<open>[]\<close>.\<close>

type_synonym document = string

text \<open>
  Every call that leaves a component is recorded, in order, with its arguments: the
  record of the component's external effects.
\<close>

datatype call =
    VerifyCredential string
  | CheckUserSubscription string string
  | EthAccounts
  | ConnectWallet
  | UploadToIPFS document
  | IssueCredential string string string string
  | SaveCredential string string string string string string nat
  | GetInstitutionStats string

record env =
  verifyCredential :: "string \<Rightarrow> credential option promise"
  checkUserSubscription :: "string \<Rightarrow> string \<Rightarrow> bool promise"
  eth_accounts :: "string list promise option"
  connectWallet :: "string option promise"
  uploadToIPFS :: "document \<Rightarrow> string promise"
  issueCredential :: "string \<Rightarrow> string \<Rightarrow> string \<Rightarrow> string \<Rightarrow> issued promise"
  saveCredential :: "string \<Rightarrow> string \<Rightarrow> string \<Rightarrow> string \<Rightarrow> string \<Rightarrow> string \<Rightarrow> nat \<Rightarrow> unit promise"
  getInstitutionStats :: "string \<Rightarrow> institutionStats promise"
  now :: nat

section \<open>JavaScript values\<close>

text \<open>A \<^verbatim>\<open>string | null\<close> used as a condition: \<^verbatim>\<open>null\<close> and \<^verbatim>\<open>''\<close> are falsy.\<close>

definition truthy :: "string option \<Rightarrow> bool" where
  "truthy w = (case w of None \<Rightarrow> False | Some a \<Rightarrow> a \<noteq> [])"

text \<open>
  \<^verbatim>\<open>String.prototype.trim\<close> on strings of 8-bit characters: the white space and line
  terminator characters below \<open>0x100\<close> are removed from both ends.
\<close>

definition isWhiteSpace :: "char \<Rightarrow> bool" where
  "isWhiteSpace c =
     (c = CHR 0x09 \<or> c = CHR 0x0A \<or> c = CHR 0x0B \<or> c = CHR 0x0C \<or> c = CHR 0x0D
      \<or> c = CHR 0x20 \<or> c = CHR 0xA0)"

definition trim :: "string \<Rightarrow> string" where
  "trim s = rev (dropWhile isWhiteSpace (rev (dropWhile isWhiteSpace s)))"

section \<open>VerificationPortal\<close>

text \<open>
  The component's \<^verbatim>\<open>useState\<close> cells, and \<open>calls\<close>, the external calls made so far.
\<close>

record portal =
  tokenId :: string
  credential :: "credential option"
  loading :: bool
  error :: "string option"
  searched :: bool
  walletAddress :: "string option"
  hasAccess :: bool
  checkingAccess :: bool
  showPricing :: bool
  verificationCount :: nat
  calls :: "call list"

text \<open>The initial values of the \<^verbatim>\<open>useState\<close> cells: the state of a fresh mount.\<close>

definition initial :: portal where
  "initial = \<lparr> tokenId = [], credential = None, loading = False, error = None,
     searched = False, walletAddress = None, hasAccess = False, checkingAccess = False,
     showPricing = False, verificationCount = 0, calls = [] \<rparr>"

text \<open>
  \<^verbatim>\<open>handleVerify\<close> runs in two parts, separated by \<^verbatim>\<open>await verifyCredential(idToVerify)\<close>.
  The first part (lines 79 to 97) reads the state of the render the handler belongs to,
  and either returns early or starts the lookup. What the second part still needs from
  that render is kept in a \<open>pending\<close>: the id, and the value of
  \<^verbatim>\<open>walletAddress && !hasAccess\<close> (line 100 reads the same captured variables as
  line 85).
\<close>

datatype pending = Pending string bool

text \<open>\<^verbatim>\<open>const idToVerify = id || tokenId\<close>: an absent or empty \<open>id\<close> gives the input field.\<close>

definition idToVerify :: "string option \<Rightarrow> portal \<Rightarrow> string" where
  "idToVerify id' s = (case id' of None \<Rightarrow> tokenId s
                                  | Some i \<Rightarrow> if i = [] then tokenId s else i)"

abbreviation LIMIT_REACHED :: string where
  "LIMIT_REACHED \<equiv> ''Verification limit reached. Please subscribe to continue.''"

definition handleVerify_start :: "string option \<Rightarrow> portal \<Rightarrow> portal \<times> pending option" where
  "handleVerify_start id' s =
     (if trim (idToVerify id' s) = [] then
        (s\<lparr>error := Some ''Please enter a token ID''\<rparr>, None)
      else if truthy (walletAddress s) \<and> \<not> hasAccess s \<and> verificationCount s \<ge> 3 then
        (s\<lparr>error := Some ''Verification limit reached. Please subscribe to continue.'',
           showPricing := True\<rparr>, None)
      else
        (s\<lparr>loading := True, error := None, credential := None, searched := True,
           calls := calls s @ [VerifyCredential (idToVerify id' s)]\<rparr>,
         Some (Pending (idToVerify id' s) (truthy (walletAddress s) \<and> \<not> hasAccess s))))"

text \<open>
  The second part (lines 98 to 110), run when the lookup settles with \<open>r\<close>. The
  counter is updated with \<^verbatim>\<open>(prev) => prev + 1\<close>, on the state current at that moment.
\<close>

definition handleVerify_resume :: "credential option promise \<Rightarrow> pending \<Rightarrow> portal \<Rightarrow> portal" where
  "handleVerify_resume r p s =
     (case p of Pending idv metered \<Rightarrow>
        (case r of
           Inr (Some result) \<Rightarrow>
             s\<lparr>credential := Some result,
               verificationCount := (if metered then verificationCount s + 1
                                     else verificationCount s)\<rparr>
         | Inr None \<Rightarrow> s\<lparr>error := Some ''Credential not found or invalid token ID''\<rparr>
         | Inl msg \<Rightarrow>
             s\<lparr>error := Some (if msg = [] then ''Failed to verify credential'' else msg)\<rparr>)
        \<lparr>loading := False\<rparr>)"

text \<open>A call of \<^verbatim>\<open>handleVerify\<close> that runs to its end before anything else happens.\<close>

definition handleVerify :: "env \<Rightarrow> string option \<Rightarrow> portal \<Rightarrow> portal" where
  "handleVerify e id' s =
     (case handleVerify_start id' s of
        (s', None) \<Rightarrow> s'
      | (s', Some (Pending idv metered)) \<Rightarrow>
          handleVerify_resume (verifyCredential e idv) (Pending idv metered) s')"

text \<open>
  \<^verbatim>\<open>checkAccess\<close> (lines 69 to 76). When the subscription check rejects, the function
  stops at the \<^verbatim>\<open>await\<close>: \<open>checkingAccess\<close> stays set and \<open>hasAccess\<close> is left as it was.
\<close>

definition checkAccess :: "env \<Rightarrow> portal \<Rightarrow> portal" where
  "checkAccess e s =
     (case walletAddress s of
        None \<Rightarrow> s
      | Some a \<Rightarrow>
          if a = [] then s
          else (case checkUserSubscription e a ''employer'' of
                  Inr access \<Rightarrow>
                    s\<lparr>hasAccess := access, checkingAccess := False,
                      calls := calls s @ [CheckUserSubscription a ''employer'']\<rparr>
                | Inl msg \<Rightarrow>
                    s\<lparr>checkingAccess := True,
                      calls := calls s @ [CheckUserSubscription a ''employer'']\<rparr>))"

text \<open>
  \<^verbatim>\<open>setWalletAddress(a)\<close> followed by the effect of lines 43 to 47, which runs when
  \<open>walletAddress\<close> has changed and calls \<^verbatim>\<open>checkAccess\<close> when it is truthy.
\<close>

definition setWalletAddress :: "env \<Rightarrow> string \<Rightarrow> portal \<Rightarrow> portal" where
  "setWalletAddress e a s =
     (if walletAddress s = Some a then s
      else if a = [] then s\<lparr>walletAddress := Some a\<rparr>
      else checkAccess e (s\<lparr>walletAddress := Some a\<rparr>))"

text \<open>\<^verbatim>\<open>checkWalletConnection\<close> (lines 49 to 60); \<open>eth_accounts e = None\<close> when
  \<^verbatim>\<open>window.ethereum\<close> is absent.\<close>

definition checkWalletConnection :: "env \<Rightarrow> portal \<Rightarrow> portal" where
  "checkWalletConnection e s =
     (case eth_accounts e of
        None \<Rightarrow> s
      | Some r \<Rightarrow>
          (case r of
             Inl msg \<Rightarrow> s\<lparr>calls := calls s @ [EthAccounts]\<rparr>
           | Inr accounts \<Rightarrow>
               (case accounts of
                  [] \<Rightarrow> s\<lparr>calls := calls s @ [EthAccounts]\<rparr>
                | a # _ \<Rightarrow> setWalletAddress e a (s\<lparr>calls := calls s @ [EthAccounts]\<rparr>))))"

text \<open>\<^verbatim>\<open>handleConnectWallet\<close> (lines 62 to 67); a rejection is not caught and sets nothing.\<close>

definition handleConnectWallet :: "env \<Rightarrow> portal \<Rightarrow> portal" where
  "handleConnectWallet e s =
     (case connectWallet e of
        Inl msg \<Rightarrow> s\<lparr>calls := calls s @ [ConnectWallet]\<rparr>
      | Inr address \<Rightarrow>
          (case address of
             None \<Rightarrow> s\<lparr>calls := calls s @ [ConnectWallet]\<rparr>
           | Some a \<Rightarrow>
               if a = [] then s\<lparr>calls := calls s @ [ConnectWallet]\<rparr>
               else setWalletAddress e a (s\<lparr>calls := calls s @ [ConnectWallet]\<rparr>)))"

text \<open>
  Mounting the component (a page load): the cells take their initial values and the
  effect of lines 33 to 41 runs, with \<open>verifyParam\<close> the \<^verbatim>\<open>verify\<close> parameter of the URL.
  \<^verbatim>\<open>handleVerify(verifyParam)\<close> is the handler of the first render, so it reads the
  initial values of \<open>walletAddress\<close>, \<open>hasAccess\<close> and \<open>verificationCount\<close>; it writes
  cells that \<^verbatim>\<open>checkWalletConnection\<close> and \<^verbatim>\<open>checkAccess\<close> do not write, so the order in
  which the awaited results arrive does not change the final state.
\<close>

definition mount :: "env \<Rightarrow> string option \<Rightarrow> portal" where
  "mount e verifyParam =
     checkWalletConnection e
       (case verifyParam of
          None \<Rightarrow> initial
        | Some v \<Rightarrow> if v = [] then initial
                    else handleVerify e (Some v) (initial\<lparr>tokenId := v\<rparr>))"

text \<open>The events of a mounted portal: the input field, the Verify button and the Enter
  key (\<^verbatim>\<open>handleVerify()\<close>), the Connect Wallet button, and the pricing dialog.\<close>

datatype action =
    SetTokenId string
  | Verify
  | ConnectWalletClick
  | OpenPricing
  | ClosePricing
  | PricingSuccess

fun step :: "env \<Rightarrow> action \<Rightarrow> portal \<Rightarrow> portal" where
  "step e (SetTokenId v) s = s\<lparr>tokenId := v\<rparr>"
| "step e Verify s = handleVerify e None s"
| "step e ConnectWalletClick s = handleConnectWallet e s"
| "step e OpenPricing s = s\<lparr>showPricing := True\<rparr>"
| "step e ClosePricing s = s\<lparr>showPricing := False\<rparr>"
| "step e PricingSuccess s = checkAccess e (s\<lparr>showPricing := False\<rparr>)"

text \<open>A session: events handled one after another, each against the collaborators as
  they answer at that moment.\<close>

fun run :: "(env \<times> action) list \<Rightarrow> portal \<Rightarrow> portal" where
  "run [] s = s"
| "run ((e, a) # rest) s = run rest (step e a s)"

text \<open>A sequence of completed \<^verbatim>\<open>handleVerify(id)\<close> calls.\<close>

fun verifyAll :: "(env \<times> string) list \<Rightarrow> portal \<Rightarrow> portal" where
  "verifyAll [] s = s"
| "verifyAll ((e, i) # rest) s = verifyAll rest (handleVerify e (Some i) s)"

section \<open>Concurrent calls of handleVerify\<close>

text \<open>
  JavaScript runs one handler at a time and switches only at an \<^verbatim>\<open>await\<close>. Calls of
  \<^verbatim>\<open>handleVerify\<close> therefore overlap as follows: \<open>Start\<close> runs the first part of a new
  call (the Enter key of the input field calls \<^verbatim>\<open>handleVerify()\<close> also while a lookup is
  loading), \<open>Settle k r\<close> lets the \<open>k\<close>-th lookup still awaited settle with \<open>r\<close> and
  runs the second part of its call.
\<close>

datatype event = Start "string option" | Settle nat "credential option promise"

fun interleave :: "event list \<Rightarrow> portal \<times> pending list \<Rightarrow> portal \<times> pending list" where
  "interleave [] st = st"
| "interleave (Start id' # es) (s, ps) =
     (case handleVerify_start id' s of
        (s', None) \<Rightarrow> interleave es (s', ps)
      | (s', Some p) \<Rightarrow> interleave es (s', ps @ [p]))"
| "interleave (Settle k r # es) (s, ps) =
     (if k < length ps
      then interleave es (handleVerify_resume r (ps ! k) s, take k ps @ drop (Suc k) ps)
      else interleave es (s, ps))"

text \<open>The lookups among the external calls: the calls that got past line 85.\<close>

fun isLookup :: "call \<Rightarrow> bool" where
  "isLookup (VerifyCredential i) = True"
| "isLookup c = False"

fun isSubscriptionCheck :: "call \<Rightarrow> bool" where
  "isSubscriptionCheck (CheckUserSubscription a t) = True"
| "isSubscriptionCheck c = False"

text \<open>A call \<^verbatim>\<open>handleVerify(i)\<close> on a token that the ledger holds: the id is not blank and
  \<^verbatim>\<open>verifyCredential\<close> resolves to a credential.\<close>

definition validLookup :: "env \<times> string \<Rightarrow> bool" where
  "validLookup c =
     (case c of (e, i) \<Rightarrow>
        trim i \<noteq> [] \<and> (case verifyCredential e i of Inr (Some r) \<Rightarrow> True | _ \<Rightarrow> False))"

text \<open>The number of lookups made so far.\<close>

definition lookups :: "portal \<Rightarrow> nat" where
  "lookups s = length (filter isLookup (calls s))"

section \<open>InstitutionDashboard\<close>

text \<open>\<^verbatim>\<open>IssuanceFormData\<close>; \<open>document\<close> is \<^verbatim>\<open>File | null\<close>.\<close>

record formData =
  studentName :: string
  studentAddress :: string
  degree :: string
  institution :: string
  graduationYear :: string
  document :: "document option"

datatype tab = Issue | Register | Students

text \<open>
  The dashboard's \<^verbatim>\<open>useState\<close> cells, and \<open>d_calls\<close>, the external calls made so far.
  The cells that the portal has too carry the prefix \<open>d_\<close>.
\<close>

record dashboard =
  activeTab :: tab
  formData :: formData
  d_loading :: bool
  success :: "issued option"
  d_error :: "string option"
  d_walletAddress :: "string option"
  stats :: institutionStats
  d_hasAccess :: bool
  d_checkingAccess :: bool
  d_showPricing :: bool
  d_calls :: "call list"

definition emptyForm :: formData where
  "emptyForm = \<lparr> studentName = [], studentAddress = [], degree = [], institution = [],
     graduationYear = [], document = None \<rparr>"

definition d_initial :: dashboard where
  "d_initial = \<lparr> activeTab = Issue, formData = emptyForm, d_loading = False, success = None,
     d_error = None, d_walletAddress = None,
     stats = \<lparr> totalIssued = 0, totalRevoked = 0, recentIssued = 0 \<rparr>,
     d_hasAccess = False, d_checkingAccess = True, d_showPricing = False, d_calls = [] \<rparr>"

text \<open>\<^verbatim>\<open>/^0x[a-fA-F0-9]{40}$/\<close>: \<^verbatim>\<open>0x\<close> and then exactly forty hexadecimal digits.\<close>

definition isHexDigit :: "char \<Rightarrow> bool" where
  "isHexDigit c = (c \<in> set ''0123456789abcdefABCDEF'')"

definition matchesAddress :: "string \<Rightarrow> bool" where
  "matchesAddress a = (length a = 42 \<and> take 2 a = ''0x'' \<and> list_all isHexDigit (drop 2 a))"

text \<open>The template \<^verbatim>\<open>`${formData.degree} (${formData.graduationYear})`\<close>.\<close>

definition degreeLabel :: "formData \<Rightarrow> string" where
  "degreeLabel f = degree f @ '' ('' @ graduationYear f @ '')''"

text \<open>The \<^verbatim>\<open>catch\<close> and \<^verbatim>\<open>finally\<close> blocks of \<^verbatim>\<open>handleSubmit\<close> (lines 115 to 119).\<close>

definition caught :: "string \<Rightarrow> dashboard \<Rightarrow> dashboard" where
  "caught msg s =
     s\<lparr>d_error := Some (if msg = [] then ''Failed to issue credential'' else msg),
       d_loading := False\<rparr>"

text \<open>Lines 103 to 111 and the \<^verbatim>\<open>finally\<close> block: the result is shown and the form cleared.\<close>

definition succeeded :: "issued \<Rightarrow> dashboard \<Rightarrow> dashboard" where
  "succeeded result s = s\<lparr>success := Some result, formData := emptyForm, d_loading := False\<rparr>"

text \<open>
  \<^verbatim>\<open>handleSubmit\<close> (lines 72 to 120). Every \<^verbatim>\<open>await\<close> is inside the one \<^verbatim>\<open>try\<close>, so a
  rejection of any awaited call ends in \<open>caught\<close>. The tests of \<^verbatim>\<open>walletAddress\<close> in
  line 90 and in \<^verbatim>\<open>loadStats\<close> read the same captured value.
\<close>

definition handleSubmit :: "env \<Rightarrow> dashboard \<Rightarrow> dashboard" where
  "handleSubmit e s =
     (let f = formData s;
          s0 = s\<lparr>d_loading := True, success := None, d_error := None\<rparr>
      in case document f of
           None \<Rightarrow> caught ''Please upload a document'' s0
         | Some doc \<Rightarrow>
             if \<not> matchesAddress (studentAddress f) then caught ''Invalid Ethereum address'' s0
             else
               (let s1 = s0\<lparr>d_calls := d_calls s0 @ [UploadToIPFS doc]\<rparr>
                in case uploadToIPFS e doc of
                     Inl msg \<Rightarrow> caught msg s1
                   | Inr ipfsHash \<Rightarrow>
                       (let s2 = s1\<lparr>d_calls := d_calls s1 @
                                  [IssueCredential (studentAddress f) ipfsHash (degreeLabel f)
                                     (institution f)]\<rparr>
                        in case issueCredential e (studentAddress f) ipfsHash (degreeLabel f)
                                  (institution f) of
                             Inl msg \<Rightarrow> caught msg s2
                           | Inr result \<Rightarrow>
                               (case d_walletAddress s of
                                  None \<Rightarrow> succeeded result s2
                                | Some w \<Rightarrow>
                                    if w = [] then succeeded result s2
                                    else
                                      (let s3 = s2\<lparr>d_calls := d_calls s2 @
                                                 [SaveCredential (tokenId_of result)
                                                    (studentAddress f) (institution f) w
                                                    (degreeLabel f) ipfsHash (now e)]\<rparr>
                                       in case saveCredential e (tokenId_of result)
                                                 (studentAddress f) (institution f) w
                                                 (degreeLabel f) ipfsHash (now e) of
                                            Inl msg \<Rightarrow> caught msg s3
                                          | Inr u \<Rightarrow>
                                              (let s4 = s3\<lparr>d_calls := d_calls s3 @
                                                         [GetInstitutionStats w]\<rparr>
                                               in case getInstitutionStats e w of
                                                    Inl msg \<Rightarrow> caught msg s4
                                                  | Inr st \<Rightarrow>
                                                      succeeded result (s4\<lparr>stats := st\<rparr>)))))))"

text \<open>
  The steps of \<^verbatim>\<open>handleSubmit\<close> that follow the mint (lines 90 to 101) complete: either
  no wallet is connected, so that no index write is attempted, or \<^verbatim>\<open>saveCredential\<close> and
  the reload of the statistics both resolve.
\<close>

definition indexSucceeds :: "env \<Rightarrow> dashboard \<Rightarrow> issued \<Rightarrow> string \<Rightarrow> bool" where
  "indexSucceeds e s result ipfsHash =
     (case d_walletAddress s of
        None \<Rightarrow> True
      | Some w \<Rightarrow>
          w = [] \<or>
          (case saveCredential e (tokenId_of result) (studentAddress (formData s))
                  (institution (formData s)) w (degreeLabel (formData s)) ipfsHash (now e) of
             Inl msg \<Rightarrow> False
           | Inr u \<Rightarrow> (case getInstitutionStats e w of Inl msg \<Rightarrow> False | Inr st \<Rightarrow> True)))"

fun isMint :: "call \<Rightarrow> bool" where
  "isMint (IssueCredential a h l i) = True"
| "isMint c = False"

section \<open>Sample collaborators\<close>

text \<open>Concrete collaborators and values, used where a property is evaluated.\<close>

definition sampleCredential :: "string \<Rightarrow> bool \<Rightarrow> credential" where
  "sampleCredential i r = \<lparr> cred_tokenId = i, cred_student = ''0xS1'', cred_institution = ''I1'',
     cred_degree = ''BSc (2024)'', cred_issueDate = 1700000000, cred_ipfsHash = ''Qm1'',
     revoked = r \<rparr>"

text \<open>Nothing is reachable: every call rejects, and there is no \<^verbatim>\<open>window.ethereum\<close>.\<close>

definition offline :: env where
  "offline = \<lparr> verifyCredential = (\<lambda>i. Inl ''offline''),
     checkUserSubscription = (\<lambda>a t. Inl ''offline''),
     eth_accounts = None,
     connectWallet = Inl ''offline'',
     uploadToIPFS = (\<lambda>d. Inl ''offline''),
     issueCredential = (\<lambda>a h l i. Inl ''offline''),
     saveCredential = (\<lambda>t a i w l h d. Inl ''offline''),
     getInstitutionStats = (\<lambda>w. Inl ''offline''),
     now = 0 \<rparr>"

text \<open>A ledger that holds the one token \<open>i\<close>, with revocation bit \<open>r\<close>.\<close>

definition ledgerWith :: "string \<Rightarrow> bool \<Rightarrow> env" where
  "ledgerWith i r = offline\<lparr>verifyCredential :=
     (\<lambda>j. if j = i then Inr (Some (sampleCredential i r)) else Inr None)\<rparr>"

text \<open>The same ledger, seen by a browser whose wallet has authorised the account
  \<open>a\<close>, with the subscription service answering \<open>access\<close>.\<close>

definition browserWith :: "string \<Rightarrow> bool \<Rightarrow> string \<Rightarrow> bool \<Rightarrow> env" where
  "browserWith i r a access = (ledgerWith i r)\<lparr>eth_accounts := Some (Inr [a]),
     connectWallet := Inr (Some a), checkUserSubscription := (\<lambda>b t. Inr access)\<rparr>"

text \<open>Collaborators of an issuing institution: the upload resolves, the ledger answers
  the mint with token id \<open>tid\<close>, the index write settles as \<open>saved\<close>.\<close>

definition issuer :: "string \<Rightarrow> unit promise \<Rightarrow> env" where
  "issuer tid saved = offline\<lparr>uploadToIPFS := (\<lambda>d. Inr (''Qm'' @ d)),
     issueCredential := (\<lambda>a h l i. Inr \<lparr> tokenId_of = tid, txHash_of = ''0xT'' @ tid \<rparr>),
     saveCredential := (\<lambda>t a i w l h d. saved),
     getInstitutionStats := (\<lambda>w. Inr \<lparr> totalIssued = 1, totalRevoked = 0, recentIssued = 1 \<rparr>)\<rparr>"

text \<open>A filled form with a well-formed student address and the document \<open>d\<close>.\<close>

definition sampleForm :: "document option \<Rightarrow> formData" where
  "sampleForm d = \<lparr> studentName = ''S1'',
     studentAddress = ''0x52908400098527886E0F7030069857D2E4169EE7'',
     degree = ''BSc'', institution = ''I1'', graduationYear = ''2024'', document = d \<rparr>"

text \<open>Two such browsers, for the token \<open>1\<close> and the account \<open>0xE1\<close>: a visitor
  without a subscription, and a subscriber.\<close>

abbreviation visitor :: env where
  "visitor \<equiv> browserWith ''1'' False ''0xE1'' False"

abbreviation subscriber :: env where
  "subscriber \<equiv> browserWith ''1'' False ''0xE1'' True"

text \<open>Four calls for the token \<open>1\<close> are started, then the four lookups settle, each with
  the credential.\<close>

abbreviation fourOverlapping :: "event list" where
  "fourOverlapping \<equiv>
     [Start (Some ''1''), Start (Some ''1''), Start (Some ''1''), Start (Some ''1''),
      Settle 0 (Inr (Some (sampleCredential ''1'' False))),
      Settle 0 (Inr (Some (sampleCredential ''1'' False))),
      Settle 0 (Inr (Some (sampleCredential ''1'' False))),
      Settle 0 (Inr (Some (sampleCredential ''1'' False)))]"


text \<open>A portal with the wallet \<open>a\<close> connected and no subscription.\<close>

definition connected :: "string \<Rightarrow> portal" where
  "connected a = initial\<lparr>walletAddress := Some a\<rparr>"

section \<open>Single and repeated calls of handleVerify\<close>

lemma trim_nonempty: "trim i \<noteq> [] \<Longrightarrow> i \<noteq> []"
  by (auto simp: trim_def)

lemma idToVerify_Some: "i \<noteq> [] \<Longrightarrow> idToVerify (Some i) s = i"
  by (simp add: idToVerify_def)

lemma handleVerify_blank:
  "trim (idToVerify id' s) = [] \<Longrightarrow>
   handleVerify e id' s = s\<lparr>error := Some ''Please enter a token ID''\<rparr>"
  by (simp add: handleVerify_def handleVerify_start_def)

lemma handleVerify_limit:
  "trim (idToVerify id' s) \<noteq> [] \<Longrightarrow> truthy (walletAddress s) \<Longrightarrow> \<not> hasAccess s \<Longrightarrow>
   3 \<le> verificationCount s \<Longrightarrow>
   handleVerify e id' s = s\<lparr>error := Some LIMIT_REACHED, showPricing := True\<rparr>"
  by (simp add: handleVerify_def handleVerify_start_def)

lemma handleVerify_lookup:
  "trim (idToVerify id' s) \<noteq> [] \<Longrightarrow>
   \<not> (truthy (walletAddress s) \<and> \<not> hasAccess s \<and> 3 \<le> verificationCount s) \<Longrightarrow>
   handleVerify e id' s =
     handleVerify_resume (verifyCredential e (idToVerify id' s))
       (Pending (idToVerify id' s) (truthy (walletAddress s) \<and> \<not> hasAccess s))
       (s\<lparr>loading := True, error := None, credential := None, searched := True,
          calls := calls s @ [VerifyCredential (idToVerify id' s)]\<rparr>)"
  unfolding handleVerify_def handleVerify_start_def
  by (simp only: if_False if_True split: prod.splits) simp

lemma handleVerify_found:
  "trim (idToVerify id' s) \<noteq> [] \<Longrightarrow>
   \<not> (truthy (walletAddress s) \<and> \<not> hasAccess s \<and> 3 \<le> verificationCount s) \<Longrightarrow>
   verifyCredential e (idToVerify id' s) = Inr (Some c) \<Longrightarrow>
   handleVerify e id' s =
     s\<lparr>loading := False, error := None, credential := Some c, searched := True,
       calls := calls s @ [VerifyCredential (idToVerify id' s)],
       verificationCount := (if truthy (walletAddress s) \<and> \<not> hasAccess s
                             then verificationCount s + 1 else verificationCount s)\<rparr>"
  by (simp add: handleVerify_lookup handleVerify_resume_def)

lemma handleVerify_wallet [simp]: "walletAddress (handleVerify e id' s) = walletAddress s"
  by (simp add: handleVerify_def handleVerify_start_def handleVerify_resume_def
      split: sum.splits option.splits)

lemma handleVerify_hasAccess [simp]: "hasAccess (handleVerify e id' s) = hasAccess s"
  by (simp add: handleVerify_def handleVerify_start_def handleVerify_resume_def
      split: sum.splits option.splits)

lemma handleVerify_unmetered_count:
  "\<not> truthy (walletAddress s) \<or> hasAccess s \<Longrightarrow>
   verificationCount (handleVerify e id' s) = verificationCount s"
  by (auto simp add: handleVerify_def handleVerify_start_def handleVerify_resume_def
      split: sum.splits option.splits)

lemma handleVerify_count_mono: "verificationCount s \<le> verificationCount (handleVerify e id' s)"
  by (simp add: handleVerify_def handleVerify_start_def handleVerify_resume_def
      split: sum.splits option.splits)

lemma verifyAll_wallet [simp]: "walletAddress (verifyAll cs s) = walletAddress s"
  by (induction cs s rule: verifyAll.induct) simp_all

lemma verifyAll_hasAccess [simp]: "hasAccess (verifyAll cs s) = hasAccess s"
  by (induction cs s rule: verifyAll.induct) simp_all

lemma verifyAll_unmetered_count:
  "\<not> truthy (walletAddress s) \<or> hasAccess s \<Longrightarrow>
   verificationCount (verifyAll cs s) = verificationCount s"
proof (induction cs arbitrary: s)
  case Nil
  then show ?case by simp
next
  case (Cons c cs)
  obtain e i where c: "c = (e, i)" by (cases c)
  have "verificationCount (verifyAll cs (handleVerify e (Some i) s))
        = verificationCount (handleVerify e (Some i) s)"
    using Cons.prems by (intro Cons.IH) simp
  then show ?case using Cons.prems by (simp add: c handleVerify_unmetered_count)
qed

lemma handleVerify_metered:
  assumes "truthy (walletAddress s)" "\<not> hasAccess s" "verificationCount s < 3"
    and "trim i \<noteq> []" "verifyCredential e i = Inr (Some c)"
  shows "handleVerify e (Some i) s =
     s\<lparr>loading := False, error := None, credential := Some c, searched := True,
       calls := calls s @ [VerifyCredential i],
       verificationCount := verificationCount s + 1\<rparr>"
proof -
  have i: "idToVerify (Some i) s = i"
    using assms(4) by (simp add: idToVerify_Some trim_nonempty)
  have "\<not> (truthy (walletAddress s) \<and> \<not> hasAccess s \<and> 3 \<le> verificationCount s)"
    using assms(3) by simp
  with assms i show ?thesis
    using handleVerify_found [of "Some i" s e c] by simp
qed

lemma handleVerify_refused:
  assumes "truthy (walletAddress s)" "\<not> hasAccess s" "3 \<le> verificationCount s"
    and "trim i \<noteq> []"
  shows "handleVerify e (Some i) s = s\<lparr>error := Some LIMIT_REACHED, showPricing := True\<rparr>"
proof -
  have "idToVerify (Some i) s = i"
    using assms(4) by (simp add: idToVerify_Some trim_nonempty)
  with assms show ?thesis
    using handleVerify_limit [of "Some i" s e] by simp
qed

lemma handleVerify_entitled:
  assumes "hasAccess s" and "trim i \<noteq> []" "verifyCredential e i = Inr (Some c)"
  shows "handleVerify e (Some i) s =
     s\<lparr>loading := False, error := None, credential := Some c, searched := True,
       calls := calls s @ [VerifyCredential i]\<rparr>"
proof -
  have i: "idToVerify (Some i) s = i"
    using assms(2) by (simp add: idToVerify_Some trim_nonempty)
  have "\<not> (truthy (walletAddress s) \<and> \<not> hasAccess s \<and> 3 \<le> verificationCount s)"
    using assms(1) by simp
  with assms i show ?thesis
    using handleVerify_found [of "Some i" s e c] by simp
qed


lemma validLookupE:
  assumes "validLookup (e, i)"
  obtains c where "trim i \<noteq> []" "verifyCredential e i = Inr (Some c)"
  using assms by (auto simp: validLookup_def split: sum.splits option.splits)

lemma metered_call:
  assumes "truthy (walletAddress s)" "\<not> hasAccess s" "validLookup (e, i)"
  shows "verificationCount (handleVerify e (Some i) s) = min 3 (verificationCount s + 1)
           \<or> 3 < verificationCount s"
    and "verificationCount s < 3 \<Longrightarrow> lookups (handleVerify e (Some i) s) = lookups s + 1"
    and "verificationCount s < 3 \<Longrightarrow> error (handleVerify e (Some i) s) = None"
    and "3 \<le> verificationCount s \<Longrightarrow> lookups (handleVerify e (Some i) s) = lookups s"
    and "3 \<le> verificationCount s \<Longrightarrow> verificationCount (handleVerify e (Some i) s) = verificationCount s"
    and "3 \<le> verificationCount s \<Longrightarrow> error (handleVerify e (Some i) s) = Some LIMIT_REACHED"
proof -
  from assms(3) obtain c where c: "trim i \<noteq> []" "verifyCredential e i = Inr (Some c)"
    by (rule validLookupE)
  have less: "handleVerify e (Some i) s =
     s\<lparr>loading := False, error := None, credential := Some c, searched := True,
       calls := calls s @ [VerifyCredential i],
       verificationCount := verificationCount s + 1\<rparr>" if "verificationCount s < 3"
    using assms(1,2) that c by (rule handleVerify_metered)
  have full: "handleVerify e (Some i) s = s\<lparr>error := Some LIMIT_REACHED, showPricing := True\<rparr>"
    if "3 \<le> verificationCount s"
    using assms(1,2) that c(1) by (rule handleVerify_refused)
  show "verificationCount (handleVerify e (Some i) s) = min 3 (verificationCount s + 1)
           \<or> 3 < verificationCount s"
  proof (cases "verificationCount s < 3")
    case True
    then show ?thesis by (simp add: less)
  next
    case False
    then have "3 \<le> verificationCount s" by simp
    then show ?thesis by (cases "verificationCount s = 3") (simp_all add: full)
  qed
  show "lookups (handleVerify e (Some i) s) = lookups s + 1" if "verificationCount s < 3"
    using that by (simp add: less lookups_def)
  show "error (handleVerify e (Some i) s) = None" if "verificationCount s < 3"
    using that by (simp add: less)
  show "lookups (handleVerify e (Some i) s) = lookups s" if "3 \<le> verificationCount s"
    using that by (simp add: full lookups_def)
  show "verificationCount (handleVerify e (Some i) s) = verificationCount s"
    if "3 \<le> verificationCount s"
    using that by (simp add: full)
  show "error (handleVerify e (Some i) s) = Some LIMIT_REACHED" if "3 \<le> verificationCount s"
    using that by (simp add: full)
qed

lemma verifyAll_metered:
  assumes "truthy (walletAddress s)" "\<not> hasAccess s" "list_all validLookup cs"
    and "verificationCount s \<le> 3"
  shows "verificationCount (verifyAll cs s) = min 3 (verificationCount s + length cs)
       \<and> lookups (verifyAll cs s) = lookups s + (min 3 (verificationCount s + length cs) - verificationCount s)
       \<and> (if 3 < verificationCount s + length cs then error (verifyAll cs s) = Some LIMIT_REACHED
          else cs = [] \<or> error (verifyAll cs s) = None)"
  using assms
proof (induction cs arbitrary: s rule: rev_induct)
  case Nil
  then show ?case by simp
next
  case (snoc c cs)
  obtain e i where c: "c = (e, i)" by (cases c)
  define t where "t = verifyAll cs s"
  have app: "verifyAll (cs @ [c]) s = handleVerify e (Some i) t"
    unfolding t_def c by (induction cs s rule: verifyAll.induct) simp_all
  have valid: "validLookup (e, i)" "list_all validLookup cs"
    using snoc.prems(3) by (simp_all add: c)
  have ih: "verificationCount t = min 3 (verificationCount s + length cs)"
    "lookups t = lookups s + (min 3 (verificationCount s + length cs) - verificationCount s)"
    using snoc.IH [OF snoc.prems(1,2) valid(2) snoc.prems(4)] by (simp_all add: t_def)
  have m: "truthy (walletAddress t)" "\<not> hasAccess t"
    using snoc.prems(1,2) by (simp_all add: t_def)
  show ?case
  proof (cases "verificationCount t < 3")
    case True
    then have small: "verificationCount s + length cs < 3"
      using ih(1) by simp
    have "verificationCount (handleVerify e (Some i) t) = min 3 (verificationCount t + 1)"
      using metered_call(1) [OF m valid(1)] True by simp
    moreover have "lookups (handleVerify e (Some i) t) = lookups t + 1"
      using metered_call(2) [OF m valid(1)] True by simp
    moreover have "error (handleVerify e (Some i) t) = None"
      using metered_call(3) [OF m valid(1)] True by simp
    ultimately show ?thesis
      using ih small by (simp add: app)
  next
    case False
    then have full: "3 \<le> verificationCount t" by simp
    then have big: "3 \<le> verificationCount s + length cs"
      using ih(1) by simp
    have "verificationCount (handleVerify e (Some i) t) = verificationCount t"
      using metered_call(5) [OF m valid(1)] full by simp
    moreover have "lookups (handleVerify e (Some i) t) = lookups t"
      using metered_call(4) [OF m valid(1)] full by simp
    moreover have "error (handleVerify e (Some i) t) = Some LIMIT_REACHED"
      using metered_call(6) [OF m valid(1)] full by simp
    ultimately show ?thesis
      using ih big snoc.prems(4) by (simp add: app)
  qed
qed

section \<open>The counter under the other handlers\<close>

lemma checkAccess_count [simp]: "verificationCount (checkAccess e s) = verificationCount s"
  by (simp add: checkAccess_def split: option.splits sum.splits)

lemma setWalletAddress_count [simp]:
  "verificationCount (setWalletAddress e a s) = verificationCount s"
  by (simp add: setWalletAddress_def)

lemma checkWalletConnection_count [simp]:
  "verificationCount (checkWalletConnection e s) = verificationCount s"
  by (simp add: checkWalletConnection_def split: option.splits sum.splits list.splits)

lemma handleConnectWallet_count [simp]:
  "verificationCount (handleConnectWallet e s) = verificationCount s"
  by (simp add: handleConnectWallet_def split: option.splits sum.splits)

lemma step_count_mono: "verificationCount s \<le> verificationCount (step e a s)"
  by (cases a) (simp_all add: handleVerify_count_mono)

lemma run_count_mono: "verificationCount s \<le> verificationCount (run es s)"
proof (induction es s rule: run.induct)
  case (1 s)
  show ?case by simp
next
  case (2 e a rest s)
  have "verificationCount s \<le> verificationCount (step e a s)"
    by (rule step_count_mono)
  also have "\<dots> \<le> verificationCount (run rest (step e a s))"
    by (rule "2.IH")
  finally show ?case by simp
qed

lemma initial_anonymous: "\<not> truthy (walletAddress (initial\<lparr>tokenId := v\<rparr>))"
  "\<not> truthy (walletAddress initial)"
  by (simp_all add: initial_def truthy_def)

lemma mount_count: "verificationCount (mount e p) = 0"
proof -
  have "verificationCount (handleVerify e (Some v) (initial\<lparr>tokenId := v\<rparr>)) = 0" for v
    using handleVerify_unmetered_count [of "initial\<lparr>tokenId := v\<rparr>" e "Some v"]
    by (simp add: initial_anonymous) (simp add: initial_def)
  then show ?thesis
    by (simp add: mount_def initial_def split: option.splits)
qed

section \<open>The sample collaborators, evaluated\<close>

lemma trim_1: "trim ''1'' \<noteq> []"
  by (simp add: trim_def isWhiteSpace_def)

lemma ledgerWith_verify [simp]:
  "verifyCredential (ledgerWith i r) i = Inr (Some (sampleCredential i r))"
  by (simp add: ledgerWith_def)

lemma browserWith_simps [simp]:
  "verifyCredential (browserWith i r a access) i = Inr (Some (sampleCredential i r))"
  "eth_accounts (browserWith i r a access) = Some (Inr [a])"
  "checkUserSubscription (browserWith i r a access) b t = Inr access"
  by (simp_all add: browserWith_def ledgerWith_def)

lemma mount_browser:
  "a \<noteq> [] \<Longrightarrow> mount (browserWith i r a access) None =
     initial\<lparr>walletAddress := Some a, hasAccess := access, checkingAccess := False,
       calls := [EthAccounts, CheckUserSubscription a ''employer'']\<rparr>"
  by (simp add: mount_def checkWalletConnection_def setWalletAddress_def checkAccess_def
      initial_def)

section \<open>The two parts of handleVerify, and what the other handlers leave alone\<close>

lemma start_metered:
  assumes "truthy (walletAddress s)" "\<not> hasAccess s" "verificationCount s < 3" "trim i \<noteq> []"
  shows "handleVerify_start (Some i) s =
     (s\<lparr>loading := True, error := None, credential := None, searched := True,
        calls := calls s @ [VerifyCredential i]\<rparr>, Some (Pending i True))"
proof -
  have "idToVerify (Some i) s = i"
    using assms(4) by (simp add: idToVerify_Some trim_nonempty)
  then show ?thesis
    using assms by (simp add: handleVerify_start_def)
qed

lemma resume_metered:
  "handleVerify_resume (Inr (Some c)) (Pending i True) s =
     s\<lparr>credential := Some c, verificationCount := verificationCount s + 1, loading := False\<rparr>"
  by (simp add: handleVerify_resume_def)

lemma checkAccess_cells [simp]:
  "credential (checkAccess e s) = credential s"
  "error (checkAccess e s) = error s"
  "showPricing (checkAccess e s) = showPricing s"
  "filter isLookup (calls (checkAccess e s)) = filter isLookup (calls s)"
  by (simp_all add: checkAccess_def split: option.splits sum.splits)

lemma setWalletAddress_cells [simp]:
  "credential (setWalletAddress e a s) = credential s"
  "error (setWalletAddress e a s) = error s"
  "showPricing (setWalletAddress e a s) = showPricing s"
  "filter isLookup (calls (setWalletAddress e a s)) = filter isLookup (calls s)"
  by (simp_all add: setWalletAddress_def)

lemma checkWalletConnection_cells [simp]:
  "credential (checkWalletConnection e s) = credential s"
  "error (checkWalletConnection e s) = error s"
  "showPricing (checkWalletConnection e s) = showPricing s"
  "filter isLookup (calls (checkWalletConnection e s)) = filter isLookup (calls s)"
  by (simp_all add: checkWalletConnection_def split: option.splits sum.splits list.splits)

lemma handleVerify_subscription_calls:
  "filter isSubscriptionCheck (calls (handleVerify e id' s)) = filter isSubscriptionCheck (calls s)"
  by (simp add: handleVerify_def handleVerify_start_def handleVerify_resume_def
      split: sum.splits option.splits)

lemma handleVerify_ignores_subscriptions:
  "handleVerify (e\<lparr>checkUserSubscription := f\<rparr>) id' s = handleVerify e id' s"
  by (simp add: handleVerify_def)

lemma mount_share_browser:
  "a \<noteq> [] \<Longrightarrow> trim i \<noteq> [] \<Longrightarrow> mount (browserWith i r a access) (Some i) =
     initial\<lparr>tokenId := i, loading := False, error := None,
       credential := Some (sampleCredential i r), searched := True,
       walletAddress := Some a, hasAccess := access, checkingAccess := False,
       calls := [VerifyCredential i, EthAccounts, CheckUserSubscription a ''employer'']\<rparr>"
proof -
  assume a: "a \<noteq> []" and t: "trim i \<noteq> []"
  then have i: "i \<noteq> []" by (simp add: trim_nonempty)
  have id: "idToVerify (Some i) (initial\<lparr>tokenId := i\<rparr>) = i"
    using i by (simp add: idToVerify_def)
  have "handleVerify (browserWith i r a access) (Some i) (initial\<lparr>tokenId := i\<rparr>) =
     initial\<lparr>tokenId := i, loading := False, error := None,
       credential := Some (sampleCredential i r), searched := True,
       calls := [VerifyCredential i]\<rparr>"
    using handleVerify_found [of "Some i" "initial\<lparr>tokenId := i\<rparr>" "browserWith i r a access"
        "sampleCredential i r"] t
    by (simp add: id initial_anonymous) (simp add: initial_def)
  then show ?thesis
    using a i
    by (simp add: mount_def checkWalletConnection_def setWalletAddress_def checkAccess_def
        initial_def)
qed

lemma handleVerify_anonymous:
  assumes "\<not> truthy (walletAddress s)"
  shows "handleVerify e id' s =
     (if trim (idToVerify id' s) = [] then s\<lparr>error := Some ''Please enter a token ID''\<rparr>
      else handleVerify_resume (verifyCredential e (idToVerify id' s))
             (Pending (idToVerify id' s) False)
             (s\<lparr>loading := True, error := None, credential := None, searched := True,
                calls := calls s @ [VerifyCredential (idToVerify id' s)]\<rparr>))"
  using assms by (simp add: handleVerify_blank handleVerify_lookup)

section \<open>The branches of handleSubmit\<close>

lemma sampleForm_address: "matchesAddress (studentAddress (sampleForm d))"
  by (simp add: sampleForm_def matchesAddress_def isHexDigit_def)

lemma handleSubmit_no_document:
  "document (formData s) = None \<Longrightarrow>
   handleSubmit e s = s\<lparr>d_loading := False, success := None,
     d_error := Some ''Please upload a document''\<rparr>"
  by (simp add: handleSubmit_def caught_def Let_def)

lemma handleSubmit_bad_address:
  "document (formData s) = Some doc \<Longrightarrow> \<not> matchesAddress (studentAddress (formData s)) \<Longrightarrow>
   handleSubmit e s = s\<lparr>d_loading := False, success := None,
     d_error := Some ''Invalid Ethereum address''\<rparr>"
  by (simp add: handleSubmit_def caught_def Let_def)

lemma handleSubmit_mints:
  assumes "document (formData s) = Some doc" "matchesAddress (studentAddress (formData s))"
    and "uploadToIPFS e doc = Inr h"
  shows "filter isMint (d_calls (handleSubmit e s)) =
     filter isMint (d_calls s) @
       [IssueCredential (studentAddress (formData s)) h (degreeLabel (formData s))
          (institution (formData s))]"
  using assms
  by (simp add: handleSubmit_def caught_def succeeded_def Let_def
      split: sum.splits option.splits)

lemma handleSubmit_succeeds:
  assumes "document (formData s) = Some doc" "matchesAddress (studentAddress (formData s))"
    and "uploadToIPFS e doc = Inr h"
    and "issueCredential e (studentAddress (formData s)) h (degreeLabel (formData s))
           (institution (formData s)) = Inr r"
    and "indexSucceeds e s r h"
  shows "success (handleSubmit e s) = Some r" "d_error (handleSubmit e s) = None"
    "formData (handleSubmit e s) = emptyForm"
    "d_walletAddress (handleSubmit e s) = d_walletAddress s"
  using assms
  by (auto simp add: handleSubmit_def caught_def succeeded_def Let_def indexSucceeds_def
      split: sum.splits option.splits)

lemma handleSubmit_wallet [simp]: "d_walletAddress (handleSubmit e s) = d_walletAddress s"
  by (simp add: handleSubmit_def caught_def succeeded_def Let_def
      split: sum.splits option.splits)



lemma sample_label: "degreeLabel (sampleForm d) = ''BSc (2024)''"
  by (simp add: degreeLabel_def sampleForm_def)

lemma issuer_simps [simp]:
  "uploadToIPFS (issuer tid saved) d = Inr (''Qm'' @ d)"
  "issueCredential (issuer tid saved) a h l i = Inr \<lparr> tokenId_of = tid, txHash_of = ''0xT'' @ tid \<rparr>"
  "saveCredential (issuer tid saved) t a i w l h n = saved"
  "getInstitutionStats (issuer tid saved) w = Inr \<lparr> totalIssued = 1, totalRevoked = 0, recentIssued = 1 \<rparr>"
  "now (issuer tid saved) = 0"
  by (simp_all add: issuer_def offline_def)

section \<open>The free quota of an identified caller\<close>




section \<open>Lookups without a wallet\<close>

text \<open>
  C10. With no wallet connected, a call of \<^verbatim>\<open>handleVerify\<close> never changes the counter and
  never opens the pricing dialog, whatever the counter holds. A blank id is answered
  with the request for a token id and no lookup; every other id is looked up with
  \<^verbatim>\<open>verifyCredential\<close>, and the limit message can only appear as the message of an error
  that \<^verbatim>\<open>verifyCredential\<close> itself rejected with. The counter is unchanged after any
  number of such calls. \<^verbatim>\<open>handleVerify\<close> has no parameter or cell that switches this off.
\<close>

theorem anonymous_unmetered:
  assumes "walletAddress s = None"
  shows "verificationCount (handleVerify e id' s) = verificationCount s
       \<and> showPricing (handleVerify e id' s) = showPricing s
       \<and> (if trim (idToVerify id' s) = []
          then error (handleVerify e id' s) = Some ''Please enter a token ID''
             \<and> calls (handleVerify e id' s) = calls s
          else calls (handleVerify e id' s) = calls s @ [VerifyCredential (idToVerify id' s)]
             \<and> (error (handleVerify e id' s) = Some LIMIT_REACHED
                  \<longleftrightarrow> verifyCredential e (idToVerify id' s) = Inl LIMIT_REACHED))
       \<and> verificationCount (verifyAll cs s) = verificationCount s"
proof -
  have anon: "\<not> truthy (walletAddress s)"
    using assms by (simp add: truthy_def)
  have count: "verificationCount (handleVerify e id' s) = verificationCount s"
    using anon by (simp add: handleVerify_unmetered_count)
  have pricing: "showPricing (handleVerify e id' s) = showPricing s"
    using anon
    by (simp add: handleVerify_def handleVerify_start_def handleVerify_resume_def
        split: sum.splits option.splits)
  have blank: "error (handleVerify e id' s) = Some ''Please enter a token ID''
      \<and> calls (handleVerify e id' s) = calls s"
    if "trim (idToVerify id' s) = []"
    using that by (simp add: handleVerify_blank)
  have lookup: "calls (handleVerify e id' s) = calls s @ [VerifyCredential (idToVerify id' s)]
      \<and> (error (handleVerify e id' s) = Some LIMIT_REACHED
           \<longleftrightarrow> verifyCredential e (idToVerify id' s) = Inl LIMIT_REACHED)"
    if "trim (idToVerify id' s) \<noteq> []"
    using that anon
    by (simp add: handleVerify_lookup handleVerify_resume_def split: sum.splits option.splits)
  have many: "verificationCount (verifyAll cs s) = verificationCount s"
    using anon by (simp add: verifyAll_unmetered_count)
  show ?thesis using count pricing blank lookup many by simp
qed

theorem anonymous_unmetered_witness:
  "verificationCount (handleVerify (ledgerWith ''1'' False) (Some ''1'') (initial\<lparr>verificationCount := 7\<rparr>)) = 7
   \<and> calls (handleVerify (ledgerWith ''1'' False) (Some ''1'') (initial\<lparr>verificationCount := 7\<rparr>))
       = [VerifyCredential ''1'']
   \<and> error (handleVerify (ledgerWith ''1'' False) (Some ''1'') (initial\<lparr>verificationCount := 7\<rparr>)) = None"
proof -
  have w: "walletAddress (initial\<lparr>verificationCount := 7\<rparr>) = None"
    by (simp add: initial_def)
  have t: "trim (idToVerify (Some ''1'') (initial\<lparr>verificationCount := 7\<rparr>)) \<noteq> []"
    by (simp add: idToVerify_def trim_def isWhiteSpace_def)
  have e: "error (handleVerify (ledgerWith ''1'' False) (Some ''1'') (initial\<lparr>verificationCount := 7\<rparr>)) = None"
    using t by (simp add: handleVerify_found ledgerWith_def offline_def idToVerify_def truthy_def initial_def)
  from anonymous_unmetered [OF w, of "ledgerWith ''1'' False" "Some ''1''" "[]"] t e
  show ?thesis by (simp add: initial_def idToVerify_def)
qed

section \<open>Revocation\<close>



section \<open>The counter across a session and a reload\<close>

text \<open>
  C4, as the claim states it, fails: the counter is a \<^verbatim>\<open>useState\<close> cell of the mounted
  component. A visitor whose wallet has authorised an account makes three lookups
  (counter 3) and reloads the page: the same account is connected again and the counter
  is 0.
\<close>

theorem counter_reset_by_reload:
  "walletAddress (verifyAll [(visitor, ''1''), (visitor, ''1''), (visitor, ''1'')]
                   (mount visitor None)) = Some ''0xE1''
   \<and> verificationCount (verifyAll [(visitor, ''1''), (visitor, ''1''), (visitor, ''1'')]
                         (mount visitor None)) = 3
   \<and> walletAddress (mount visitor None) = Some ''0xE1''
   \<and> verificationCount (mount visitor None) = 0
   \<and> verificationCount (mount visitor None)
       < verificationCount (verifyAll [(visitor, ''1''), (visitor, ''1''), (visitor, ''1'')]
                              (mount visitor None))"
proof -
  define e where "e = browserWith ''1'' False ''0xE1'' False"
  define s0 where "s0 = mount e None"
  define s1 where "s1 = handleVerify e (Some ''1'') s0"
  define s2 where "s2 = handleVerify e (Some ''1'') s1"
  define s3 where "s3 = handleVerify e (Some ''1'') s2"
  have v: "verifyCredential e ''1'' = Inr (Some (sampleCredential ''1'' False))"
    by (simp add: e_def)
  have p0: "walletAddress s0 = Some ''0xE1''" "\<not> hasAccess s0" "verificationCount s0 = 0"
    by (simp_all add: s0_def e_def mount_browser initial_def)
  have w: "truthy (walletAddress s0)"
    using p0 by (simp add: truthy_def)
  have "s1 = s0\<lparr>loading := False, error := None,
      credential := Some (sampleCredential ''1'' False), searched := True,
      calls := calls s0 @ [VerifyCredential ''1''], verificationCount := verificationCount s0 + 1\<rparr>"
    unfolding s1_def using w p0 v trim_1 by (intro handleVerify_metered) simp_all
  then have p1: "truthy (walletAddress s1)" "\<not> hasAccess s1" "verificationCount s1 = 1"
    using w p0 by simp_all
  have "s2 = s1\<lparr>loading := False, error := None,
      credential := Some (sampleCredential ''1'' False), searched := True,
      calls := calls s1 @ [VerifyCredential ''1''], verificationCount := verificationCount s1 + 1\<rparr>"
    unfolding s2_def using p1 v trim_1 by (intro handleVerify_metered) simp_all
  then have p2: "truthy (walletAddress s2)" "\<not> hasAccess s2" "verificationCount s2 = 2"
    using p1 by simp_all
  have "s3 = s2\<lparr>loading := False, error := None,
      credential := Some (sampleCredential ''1'' False), searched := True,
      calls := calls s2 @ [VerifyCredential ''1''], verificationCount := verificationCount s2 + 1\<rparr>"
    unfolding s3_def using p2 v trim_1 by (intro handleVerify_metered) simp_all
  then have p3: "verificationCount s3 = 3"
    using p2 by simp
  have w3: "walletAddress s3 = Some ''0xE1''"
    using p0 by (simp add: s3_def s2_def s1_def)
  have "verifyAll [(e, ''1''), (e, ''1''), (e, ''1'')] s0 = s3"
    by (simp add: s3_def s2_def s1_def)
  then show ?thesis
    using p0 p3 w3 unfolding Let_def e_def [symmetric] s0_def [symmetric] by simp
qed

text \<open>
  C4, amended. Within one mounted portal no sequence of events (lookups, connecting a
  wallet, the pricing dialog, a subscription becoming active through \<^verbatim>\<open>checkAccess\<close>)
  decreases the counter; the counter is a cell of the component, not keyed by the
  identity, and is 0 after every mount.
\<close>

theorem counter_within_session:
  "verificationCount s \<le> verificationCount (run es s)
   \<and> verificationCount (checkAccess e s) = verificationCount s
   \<and> verificationCount (mount e p) = 0"
  by (simp add: run_count_mono mount_count)

theorem counter_within_session_witness:
  "verificationCount (connected ''0xE1'')
     \<le> verificationCount (run [(ledgerWith ''1'' False, SetTokenId ''1''),
            (ledgerWith ''1'' False, Verify)] (connected ''0xE1''))
   \<and> verificationCount (mount (browserWith ''1'' False ''0xE1'' False) (Some ''1'')) = 0"
  using counter_within_session [of "connected ''0xE1''"
      "[(ledgerWith ''1'' False, SetTokenId ''1''), (ledgerWith ''1'' False, Verify)]"
      "browserWith ''1'' False ''0xE1'' False" "Some ''1''"]
  by simp

section \<open>Overlapping calls\<close>

text \<open>
  C8, as the claim states it, fails: the test of line 85 and the increment of line 101
  are separated by the awaited lookup. A connected, unsubscribed caller with counter 0
  starts four calls before the first lookup settles (the Enter key is not disabled while
  loading): each call reads the counter as 0 and starts its lookup, and when the four
  lookups settle each call increments. All four succeed and the counter is 4.
\<close>

theorem overlapping_calls_exceed_limit:
  "verificationCount (fst (interleave fourOverlapping (connected ''0xE1'', []))) = 4
   \<and> lookups (fst (interleave fourOverlapping (connected ''0xE1'', []))) = 4
   \<and> error (fst (interleave fourOverlapping (connected ''0xE1'', []))) = None
   \<and> credential (fst (interleave fourOverlapping (connected ''0xE1'', [])))
       = Some (sampleCredential ''1'' False)
   \<and> snd (interleave fourOverlapping (connected ''0xE1'', [])) = []
   \<and> lookups (connected ''0xE1'') = 0"
proof -
  define s0 where "s0 = connected ''0xE1''"
  define s1 where "s1 = s0\<lparr>loading := True, error := None, credential := None, searched := True,
     calls := [VerifyCredential ''1'']\<rparr>"
  define s4 where "s4 = s0\<lparr>loading := True, error := None, credential := None, searched := True,
     calls := [VerifyCredential ''1'', VerifyCredential ''1'', VerifyCredential ''1'',
               VerifyCredential ''1'']\<rparr>"
  define p where "p = Pending ''1'' True"
  define c where "c = sampleCredential ''1'' False"
  have m0: "truthy (walletAddress s0)" "\<not> hasAccess s0" "verificationCount s0 = 0" "calls s0 = []"
    by (simp_all add: s0_def connected_def initial_def truthy_def)
  have a: "handleVerify_start (Some ''1'') s = (s\<lparr>loading := True, error := None,
      credential := None, searched := True, calls := calls s @ [VerifyCredential ''1'']\<rparr>, Some p)"
    if "truthy (walletAddress s)" "\<not> hasAccess s" "verificationCount s = 0" for s
    unfolding p_def using that trim_1 by (intro start_metered) simp_all
  define u1 where "u1 = s0\<lparr>loading := True, error := None, credential := None, searched := True,
      calls := calls s0 @ [VerifyCredential ''1'']\<rparr>"
  define u2 where "u2 = u1\<lparr>loading := True, error := None, credential := None, searched := True,
      calls := calls u1 @ [VerifyCredential ''1'']\<rparr>"
  define u3 where "u3 = u2\<lparr>loading := True, error := None, credential := None, searched := True,
      calls := calls u2 @ [VerifyCredential ''1'']\<rparr>"
  define u4 where "u4 = u3\<lparr>loading := True, error := None, credential := None, searched := True,
      calls := calls u3 @ [VerifyCredential ''1'']\<rparr>"
  have m1: "truthy (walletAddress u1)" "\<not> hasAccess u1" "verificationCount u1 = 0"
    using m0 by (simp_all add: u1_def)
  have m2: "truthy (walletAddress u2)" "\<not> hasAccess u2" "verificationCount u2 = 0"
    using m1 by (simp_all add: u2_def)
  have m3: "truthy (walletAddress u3)" "\<not> hasAccess u3" "verificationCount u3 = 0"
    using m2 by (simp_all add: u3_def)
  have starts: "interleave [Start (Some ''1''), Start (Some ''1''), Start (Some ''1''),
      Start (Some ''1'')] (s0, []) = (u4, [p, p, p, p])"
    by (simp add: a [OF m0(1-3)] a [OF m1] a [OF m2] a [OF m3]
        u1_def [symmetric] u2_def [symmetric] u3_def [symmetric] u4_def [symmetric])
  have u4: "verificationCount u4 = 0" "lookups u4 = 4" "error u4 = None"
    using m0 by (simp_all add: u4_def u3_def u2_def u1_def lookups_def)
  define v where "v = u4\<lparr>credential := Some c, verificationCount := 4, loading := False\<rparr>"
  have settles: "interleave [Settle 0 (Inr (Some c)), Settle 0 (Inr (Some c)),
      Settle 0 (Inr (Some c)), Settle 0 (Inr (Some c))] (u4, [p, p, p, p]) = (v, [])"
    using u4(1) by (simp add: p_def resume_metered v_def)
  have app: "interleave (xs @ ys) st = interleave ys (interleave xs st)" for xs ys st
    by (induction xs st rule: interleave.induct) (simp_all split: prod.splits option.splits)
  have "interleave ([Start (Some ''1''), Start (Some ''1''), Start (Some ''1''),
      Start (Some ''1'')] @ [Settle 0 (Inr (Some c)), Settle 0 (Inr (Some c)),
      Settle 0 (Inr (Some c)), Settle 0 (Inr (Some c))]) (s0, []) = (v, [])"
    unfolding app starts settles ..
  then have "interleave [Start (Some ''1''), Start (Some ''1''), Start (Some ''1''),
      Start (Some ''1''), Settle 0 (Inr (Some c)), Settle 0 (Inr (Some c)),
      Settle 0 (Inr (Some c)), Settle 0 (Inr (Some c))] (s0, []) = (v, [])"
    by simp
  moreover have "verificationCount v = 4" "lookups v = 4" "error v = None" "credential v = Some c"
    using u4 by (simp_all add: v_def lookups_def)
  moreover have "lookups s0 = 0"
    using m0 by (simp add: lookups_def)
  ultimately show ?thesis
    unfolding s0_def [symmetric] c_def [symmetric] by simp
qed


text \<open>
  C8, amended. When the calls of a connected, unsubscribed caller with counter 0 run one
  after another, each to its end, and every call is a valid lookup: exactly the first
  three (all of them, when there are fewer) make a lookup and are counted, and after
  every further call the limit message is shown, with no further lookup and the counter
  at 3. The test and the increment are two steps of \<^verbatim>\<open>handleVerify\<close>, not one atomic step.
\<close>

theorem sequential_calls_limited:
  assumes "truthy (walletAddress s)" "\<not> hasAccess s" "verificationCount s = 0"
    and "list_all validLookup cs"
  shows "verificationCount (verifyAll cs s) = min 3 (length cs)
       \<and> lookups (verifyAll cs s) = lookups s + min 3 (length cs)
       \<and> (\<forall>k. 3 < k \<and> k \<le> length cs \<longrightarrow>
             error (verifyAll (take k cs) s) = Some LIMIT_REACHED
           \<and> lookups (verifyAll (take k cs) s) = lookups s + 3
           \<and> verificationCount (verifyAll (take k cs) s) = 3)"
proof -
  have whole: "verificationCount (verifyAll cs s) = min 3 (length cs)
      \<and> lookups (verifyAll cs s) = lookups s + min 3 (length cs)"
    using verifyAll_metered [OF assms(1,2,4)] assms(3) by simp
  have prefix: "error (verifyAll (take k cs) s) = Some LIMIT_REACHED
      \<and> lookups (verifyAll (take k cs) s) = lookups s + 3
      \<and> verificationCount (verifyAll (take k cs) s) = 3"
    if k: "3 < k" "k \<le> length cs" for k
  proof -
    have v: "list_all validLookup (take k cs)"
      using assms(4) by (auto simp: list_all_iff dest: in_set_takeD)
    have l: "length (take k cs) = k"
      using k by simp
    show ?thesis
      using verifyAll_metered [OF assms(1,2) v] assms(3) k l by simp
  qed
  show ?thesis
    using whole prefix by blast
qed

theorem sequential_calls_limited_witness:
  "let e = ledgerWith ''1'' False;
       s = verifyAll [(e, ''1''), (e, ''1''), (e, ''1''), (e, ''1'')] (connected ''0xE1'')
   in verificationCount s = 3 \<and> lookups s = 3 \<and> error s = Some LIMIT_REACHED"
proof -
  define cs where "cs = [(ledgerWith ''1'' False, ''1''), (ledgerWith ''1'' False, ''1''),
    (ledgerWith ''1'' False, ''1''), (ledgerWith ''1'' False, ''1'')]"
  have v: "list_all validLookup cs"
    by (simp add: cs_def validLookup_def trim_1)
  have m: "truthy (walletAddress (connected ''0xE1''))" "\<not> hasAccess (connected ''0xE1'')"
    "verificationCount (connected ''0xE1'') = 0" "lookups (connected ''0xE1'') = 0"
    by (simp_all add: connected_def initial_def truthy_def lookups_def)
  have k: "(3::nat) < 4 \<and> 4 \<le> length cs" "take 4 cs = cs"
    by (simp_all add: cs_def)
  from sequential_calls_limited [OF m(1-3) v] k m(4)
  have "verificationCount (verifyAll cs (connected ''0xE1'')) = 3
      \<and> lookups (verifyAll cs (connected ''0xE1'')) = 3
      \<and> error (verifyAll cs (connected ''0xE1'')) = Some LIMIT_REACHED"
    by (metis add_0)
  then show ?thesis
    unfolding Let_def cs_def by simp
qed

section \<open>When the subscription is checked\<close>

text \<open>
  C6, as the claim states it, fails: \<^verbatim>\<open>handleVerify\<close> reads the cell \<open>hasAccess\<close> and
  never calls \<^verbatim>\<open>checkUserSubscription\<close>. The subscription is active when the wallet is
  detected at mount; afterwards the service answers that it is not active. Two lookups
  follow: the only calls they make are the two lookups, and both go through unmetered.
\<close>

theorem entitlement_read_from_cell:
  "calls (verifyAll [(visitor, ''1''), (visitor, ''1'')] (mount subscriber None))
     = [EthAccounts, CheckUserSubscription ''0xE1'' ''employer'',
        VerifyCredential ''1'', VerifyCredential ''1'']
   \<and> checkUserSubscription visitor ''0xE1'' ''employer'' = Inr False
   \<and> hasAccess (verifyAll [(visitor, ''1''), (visitor, ''1'')] (mount subscriber None))
   \<and> verificationCount (verifyAll [(visitor, ''1''), (visitor, ''1'')] (mount subscriber None)) = 0
   \<and> credential (verifyAll [(visitor, ''1''), (visitor, ''1'')] (mount subscriber None))
       = Some (sampleCredential ''1'' False)"
proof -
  define e2 where "e2 = browserWith ''1'' False ''0xE1'' False"
  define s0 where "s0 = mount (browserWith ''1'' False ''0xE1'' True) None"
  define s1 where "s1 = handleVerify e2 (Some ''1'') s0"
  define s2 where "s2 = handleVerify e2 (Some ''1'') s1"
  have v: "verifyCredential e2 ''1'' = Inr (Some (sampleCredential ''1'' False))"
    by (simp add: e2_def)
  have p0: "hasAccess s0" "verificationCount s0 = 0"
    "calls s0 = [EthAccounts, CheckUserSubscription ''0xE1'' ''employer'']"
    by (simp_all add: s0_def mount_browser initial_def)
  have "s1 = s0\<lparr>loading := False, error := None,
      credential := Some (sampleCredential ''1'' False), searched := True,
      calls := calls s0 @ [VerifyCredential ''1'']\<rparr>"
    unfolding s1_def using p0(1) trim_1 v by (rule handleVerify_entitled)
  then have p1: "hasAccess s1" "verificationCount s1 = 0"
    "calls s1 = [EthAccounts, CheckUserSubscription ''0xE1'' ''employer'', VerifyCredential ''1'']"
    using p0 by simp_all
  have "s2 = s1\<lparr>loading := False, error := None,
      credential := Some (sampleCredential ''1'' False), searched := True,
      calls := calls s1 @ [VerifyCredential ''1'']\<rparr>"
    unfolding s2_def using p1(1) trim_1 v by (rule handleVerify_entitled)
  then have p2: "hasAccess s2" "verificationCount s2 = 0"
    "calls s2 = [EthAccounts, CheckUserSubscription ''0xE1'' ''employer'', VerifyCredential ''1'',
       VerifyCredential ''1'']" "credential s2 = Some (sampleCredential ''1'' False)"
    using p1 by simp_all
  have "verifyAll [(e2, ''1''), (e2, ''1'')] s0 = s2"
    by (simp add: s2_def s1_def)
  moreover have "checkUserSubscription e2 ''0xE1'' ''employer'' = Inr False"
    by (simp add: e2_def)
  ultimately show ?thesis
    using p2 unfolding Let_def e2_def [symmetric] s0_def [symmetric] by simp
qed

text \<open>
  C6, amended. The subscription service is consulted when the wallet address changes
  to a non-empty address (the effect of lines 43 to 47) and when the pricing dialog
  reports success; the answer is kept in \<open>hasAccess\<close>. A call of \<^verbatim>\<open>handleVerify\<close> makes no
  subscription check, does not change \<open>hasAccess\<close>, and its result does not depend on
  what the subscription service would answer.
\<close>

theorem entitlement_checked_on_wallet_change:
  "filter isSubscriptionCheck (calls (handleVerify e id' s)) = filter isSubscriptionCheck (calls s)
   \<and> hasAccess (handleVerify e id' s) = hasAccess s
   \<and> handleVerify (e\<lparr>checkUserSubscription := f\<rparr>) id' s = handleVerify e id' s
   \<and> (walletAddress s \<noteq> Some a \<and> a \<noteq> [] \<longrightarrow>
        calls (setWalletAddress e a s) = calls s @ [CheckUserSubscription a ''employer''])
   \<and> (walletAddress s = Some a \<and> a \<noteq> [] \<longrightarrow>
        calls (step e PricingSuccess s) = calls s @ [CheckUserSubscription a ''employer'']
        \<and> hasAccess (step e PricingSuccess s) =
            (case checkUserSubscription e a ''employer'' of
               Inr access \<Rightarrow> access | Inl msg \<Rightarrow> hasAccess s))"
proof -
  have wallet: "calls (setWalletAddress e a s) = calls s @ [CheckUserSubscription a ''employer'']"
    if "walletAddress s \<noteq> Some a" "a \<noteq> []"
    using that by (simp add: setWalletAddress_def checkAccess_def split: sum.splits)
  have pricing: "calls (step e PricingSuccess s) = calls s @ [CheckUserSubscription a ''employer'']
      \<and> hasAccess (step e PricingSuccess s) =
          (case checkUserSubscription e a ''employer'' of
             Inr access \<Rightarrow> access | Inl msg \<Rightarrow> hasAccess s)"
    if "walletAddress s = Some a" "a \<noteq> []"
    using that by (simp add: checkAccess_def split: sum.splits)
  show ?thesis
    using wallet pricing
    by (simp add: handleVerify_subscription_calls handleVerify_ignores_subscriptions)
qed

theorem entitlement_checked_on_wallet_change_witness:
  "calls (handleVerify (browserWith ''1'' False ''0xE1'' True) (Some ''1'') (connected ''0xE1''))
     = [VerifyCredential ''1'']
   \<and> calls (setWalletAddress (browserWith ''1'' False ''0xE1'' True) ''0xE1'' initial)
     = [CheckUserSubscription ''0xE1'' ''employer'']
   \<and> hasAccess (step (browserWith ''1'' False ''0xE1'' True) PricingSuccess (connected ''0xE1''))"
proof -
  have c: "calls (handleVerify (browserWith ''1'' False ''0xE1'' True) (Some ''1'')
      (connected ''0xE1'')) = [VerifyCredential ''1'']"
    using handleVerify_metered [of "connected ''0xE1''" "''1''"
        "browserWith ''1'' False ''0xE1'' True" "sampleCredential ''1'' False"] trim_1
    by (simp add: connected_def initial_def truthy_def)
  have w: "walletAddress initial \<noteq> Some ''0xE1'' \<and> ''0xE1'' \<noteq> []"
    "walletAddress (connected ''0xE1'') = Some ''0xE1'' \<and> ''0xE1'' \<noteq> []"
    "calls initial = []"
    by (simp_all add: initial_def connected_def)
  from entitlement_checked_on_wallet_change
    [of "browserWith ''1'' False ''0xE1'' True" "Some ''1''" initial "\<lambda>a t. Inr False" "''0xE1''"]
    entitlement_checked_on_wallet_change
    [of "browserWith ''1'' False ''0xE1'' True" "Some ''1''" "connected ''0xE1''"
      "\<lambda>a t. Inr False" "''0xE1''"] w c
  show ?thesis by simp
qed

section \<open>Lookups from a shared link\<close>

text \<open>
  C7, as the claim states it, fails: the lookup of the \<^verbatim>\<open>verify\<close> URL parameter runs in
  the mount effect, with the handler of the first render, before the wallet is detected.
  For a visitor whose wallet has authorised an account and who has no subscription, the
  shared link shows the credential with the counter left at 0, while the same lookup
  typed into the field after the page has loaded brings the counter to 1.
\<close>

theorem share_link_not_counted:
  "walletAddress (mount visitor (Some ''1'')) = Some ''0xE1''
   \<and> \<not> hasAccess (mount visitor (Some ''1''))
   \<and> credential (mount visitor (Some ''1'')) = Some (sampleCredential ''1'' False)
   \<and> verificationCount (mount visitor (Some ''1'')) = 0
   \<and> walletAddress (handleVerify visitor (Some ''1'') (mount visitor None)) = Some ''0xE1''
   \<and> \<not> hasAccess (handleVerify visitor (Some ''1'') (mount visitor None))
   \<and> credential (handleVerify visitor (Some ''1'') (mount visitor None))
       = Some (sampleCredential ''1'' False)
   \<and> verificationCount (handleVerify visitor (Some ''1'') (mount visitor None)) = 1"
proof -
  define e where "e = browserWith ''1'' False ''0xE1'' False"
  define s0 where "s0 = mount e None"
  have shared: "mount e (Some ''1'') =
     initial\<lparr>tokenId := ''1'', loading := False, error := None,
       credential := Some (sampleCredential ''1'' False), searched := True,
       walletAddress := Some ''0xE1'', hasAccess := False, checkingAccess := False,
       calls := [VerifyCredential ''1'', EthAccounts, CheckUserSubscription ''0xE1'' ''employer'']\<rparr>"
    unfolding e_def using trim_1 by (intro mount_share_browser) simp_all
  have p0: "walletAddress s0 = Some ''0xE1''" "\<not> hasAccess s0" "verificationCount s0 = 0"
    by (simp_all add: s0_def e_def mount_browser initial_def)
  have "handleVerify e (Some ''1'') s0 = s0\<lparr>loading := False, error := None,
      credential := Some (sampleCredential ''1'' False), searched := True,
      calls := calls s0 @ [VerifyCredential ''1''], verificationCount := verificationCount s0 + 1\<rparr>"
    using p0 trim_1 by (intro handleVerify_metered) (simp_all add: truthy_def e_def)
  then have direct: "walletAddress (handleVerify e (Some ''1'') s0) = Some ''0xE1''"
    "\<not> hasAccess (handleVerify e (Some ''1'') s0)"
    "credential (handleVerify e (Some ''1'') s0) = Some (sampleCredential ''1'' False)"
    "verificationCount (handleVerify e (Some ''1'') s0) = 1"
    using p0 by simp_all
  show ?thesis
    using direct unfolding Let_def e_def [symmetric] s0_def [symmetric]
    by (simp add: shared initial_def)
qed

text \<open>
  C7, amended. The lookup of a shared link calls the same \<^verbatim>\<open>handleVerify\<close> as a direct
  lookup, but always as a lookup without a wallet on the initial state: it shows the
  credential and error that \<^verbatim>\<open>handleVerify\<close> gives on the initial state, it is never
  refused at the limit (the pricing dialog stays closed), it makes the lookup whenever
  the id is not blank, and the counter is 0 afterwards, whoever the visitor is.
\<close>

theorem share_link_is_anonymous_lookup:
  assumes "v \<noteq> []"
  shows "verificationCount (mount e (Some v)) = 0
       \<and> showPricing (mount e (Some v)) = False
       \<and> credential (mount e (Some v)) = credential (handleVerify e (Some v) initial)
       \<and> error (mount e (Some v)) = error (handleVerify e (Some v) initial)
       \<and> filter isLookup (calls (mount e (Some v))) = (if trim v = [] then [] else [VerifyCredential v])"
proof -
  define s where "s = initial\<lparr>tokenId := v\<rparr>"
  have m: "mount e (Some v) = checkWalletConnection e (handleVerify e (Some v) s)"
    using assms by (simp add: mount_def s_def)
  have i: "idToVerify (Some v) s = v" "idToVerify (Some v) initial = v"
    using assms by (simp_all add: idToVerify_def)
  have a: "\<not> truthy (walletAddress s)" "\<not> truthy (walletAddress initial)"
    by (simp_all add: s_def initial_anonymous)
  have cells: "credential s = credential initial" "showPricing s = False" "calls s = []"
    by (simp_all add: s_def initial_def)
  have same: "credential (handleVerify e (Some v) s) = credential (handleVerify e (Some v) initial)"
    "error (handleVerify e (Some v) s) = error (handleVerify e (Some v) initial)"
    using cells
    by (simp_all add: handleVerify_anonymous [OF a(1)] handleVerify_anonymous [OF a(2)] i
        handleVerify_resume_def split: sum.splits option.splits)
  have pricing: "showPricing (handleVerify e (Some v) s) = False"
    using cells
    by (simp add: handleVerify_anonymous [OF a(1)] i handleVerify_resume_def
        split: sum.splits option.splits)
  have calls: "filter isLookup (calls (handleVerify e (Some v) s))
      = (if trim v = [] then [] else [VerifyCredential v])"
    using cells
    by (simp add: handleVerify_anonymous [OF a(1)] i handleVerify_resume_def
        split: sum.splits option.splits)
  have count: "verificationCount (mount e (Some v)) = 0"
    by (rule mount_count)
  show ?thesis
    using same pricing calls count by (simp add: m)
qed

theorem share_link_is_anonymous_lookup_witness:
  "''1'' \<noteq> []
   \<and> verificationCount (mount (browserWith ''1'' False ''0xE1'' False) (Some ''1'')) = 0
   \<and> filter isLookup (calls (mount (browserWith ''1'' False ''0xE1'' False) (Some ''1'')))
       = [VerifyCredential ''1'']"
proof -
  have n: "''1'' \<noteq> []" by simp
  from share_link_is_anonymous_lookup [OF n, of "browserWith ''1'' False ''0xE1'' False"] trim_1
  show ?thesis by simp
qed

section \<open>Validation of the issuance form\<close>

text \<open>
  C9, as the claim states it, fails for a document with no bytes: line 79 tests that a
  \<^verbatim>\<open>File\<close> is attached, not that it has content. A zero-byte file with a well-formed
  student address is uploaded and minted.
\<close>

theorem empty_document_accepted:
  "d_calls (handleSubmit (issuer ''1'' (Inr ())) (d_initial\<lparr>formData := sampleForm (Some [])\<rparr>))
     = [UploadToIPFS [],
        IssueCredential ''0x52908400098527886E0F7030069857D2E4169EE7'' ''Qm'' ''BSc (2024)'' ''I1'']
   \<and> success (handleSubmit (issuer ''1'' (Inr ())) (d_initial\<lparr>formData := sampleForm (Some [])\<rparr>))
     = Some \<lparr> tokenId_of = ''1'', txHash_of = ''0xT1'' \<rparr>
   \<and> d_error (handleSubmit (issuer ''1'' (Inr ())) (d_initial\<lparr>formData := sampleForm (Some [])\<rparr>))
     = None"
proof -
  have a: "matchesAddress (studentAddress (sampleForm (Some [])))"
    by (rule sampleForm_address)
  have f: "studentAddress (sampleForm (Some [])) = ''0x52908400098527886E0F7030069857D2E4169EE7''"
    "institution (sampleForm (Some [])) = ''I1''" "document (sampleForm (Some [])) = Some []"
    by (simp_all add: sampleForm_def)
  show ?thesis
    using a by (simp add: Let_def handleSubmit_def succeeded_def d_initial_def sample_label f)
qed

text \<open>
  C9, amended. When no document is attached, or the student address does not match
  \<^verbatim>\<open>/^0x[a-fA-F0-9]{40}$/\<close>, \<^verbatim>\<open>handleSubmit\<close> reports the validation error and makes no
  external call: no upload, no mint, no index write, no reload of the statistics. The
  form is left as it is. (An attached document of zero bytes is not rejected.)
\<close>

theorem malformed_issuance_rejected:
  assumes "document (formData s) = None \<or> \<not> matchesAddress (studentAddress (formData s))"
  shows "d_calls (handleSubmit e s) = d_calls s
       \<and> success (handleSubmit e s) = None
       \<and> d_error (handleSubmit e s) =
           Some (if document (formData s) = None then ''Please upload a document''
                 else ''Invalid Ethereum address'')
       \<and> formData (handleSubmit e s) = formData s
       \<and> stats (handleSubmit e s) = stats s"
proof (cases "document (formData s)")
  case None
  then show ?thesis by (simp add: handleSubmit_no_document)
next
  case (Some doc)
  with assms have "\<not> matchesAddress (studentAddress (formData s))" by simp
  with Some show ?thesis by (simp add: handleSubmit_bad_address)
qed

theorem malformed_issuance_rejected_witness:
  "d_calls (handleSubmit (issuer ''1'' (Inr ())) (d_initial\<lparr>formData := sampleForm None\<rparr>)) = []
   \<and> d_error (handleSubmit (issuer ''1'' (Inr ())) (d_initial\<lparr>formData := sampleForm None\<rparr>))
       = Some ''Please upload a document''
   \<and> d_calls (handleSubmit (issuer ''1'' (Inr ()))
        (d_initial\<lparr>formData := (sampleForm (Some ''pdf''))\<lparr>studentAddress := ''0x1234''\<rparr>\<rparr>)) = []
   \<and> d_error (handleSubmit (issuer ''1'' (Inr ()))
        (d_initial\<lparr>formData := (sampleForm (Some ''pdf''))\<lparr>studentAddress := ''0x1234''\<rparr>\<rparr>))
       = Some ''Invalid Ethereum address''"
proof -
  have n: "document (formData (d_initial\<lparr>formData := sampleForm None\<rparr>)) = None
      \<or> \<not> matchesAddress (studentAddress (formData (d_initial\<lparr>formData := sampleForm None\<rparr>)))"
    by (simp add: sampleForm_def)
  have b: "document (formData (d_initial\<lparr>formData :=
        (sampleForm (Some ''pdf''))\<lparr>studentAddress := ''0x1234''\<rparr>\<rparr>)) = None
      \<or> \<not> matchesAddress (studentAddress (formData (d_initial\<lparr>formData :=
        (sampleForm (Some ''pdf''))\<lparr>studentAddress := ''0x1234''\<rparr>\<rparr>)))"
    by (simp add: matchesAddress_def)
  from malformed_issuance_rejected [OF n, of "issuer ''1'' (Inr ())"]
    malformed_issuance_rejected [OF b, of "issuer ''1'' (Inr ())"]
  show ?thesis by (simp add: d_initial_def sampleForm_def)
qed

section \<open>A failing index write\<close>




section \<open>Submitting the same form twice\<close>

text \<open>
  C3, as the claim states it, fails: \<^verbatim>\<open>handleSubmit\<close> calls \<^verbatim>\<open>issueCredential\<close> with the
  student address, the content hash, the degree label and the institution, and nothing
  else; it keeps no record of earlier submissions. The same form submitted twice gives
  two mint requests with the same arguments, and with a ledger that numbers its mints
  the two calls report the token ids 1 and 2.
\<close>

theorem resubmission_mints_twice:
  "filter isMint (d_calls (handleSubmit (issuer ''2'' (Inr ()))
      ((handleSubmit (issuer ''1'' (Inr ())) (d_initial\<lparr>formData := sampleForm (Some ''pdf'')\<rparr>))
         \<lparr>formData := sampleForm (Some ''pdf'')\<rparr>)))
     = [IssueCredential ''0x52908400098527886E0F7030069857D2E4169EE7'' ''Qmpdf'' ''BSc (2024)'' ''I1'',
        IssueCredential ''0x52908400098527886E0F7030069857D2E4169EE7'' ''Qmpdf'' ''BSc (2024)'' ''I1'']
   \<and> success (handleSubmit (issuer ''1'' (Inr ())) (d_initial\<lparr>formData := sampleForm (Some ''pdf'')\<rparr>))
     = Some \<lparr> tokenId_of = ''1'', txHash_of = ''0xT1'' \<rparr>
   \<and> success (handleSubmit (issuer ''2'' (Inr ()))
      ((handleSubmit (issuer ''1'' (Inr ())) (d_initial\<lparr>formData := sampleForm (Some ''pdf'')\<rparr>))
         \<lparr>formData := sampleForm (Some ''pdf'')\<rparr>))
     = Some \<lparr> tokenId_of = ''2'', txHash_of = ''0xT2'' \<rparr>"
proof -
  define f where "f = sampleForm (Some ''pdf'')"
  define s0 where "s0 = d_initial\<lparr>formData := f\<rparr>"
  define s1 where "s1 = handleSubmit (issuer ''1'' (Inr ())) s0"
  define t1 where "t1 = s1\<lparr>formData := f\<rparr>"
  define s2 where "s2 = handleSubmit (issuer ''2'' (Inr ())) t1"
  have fd: "document f = Some ''pdf''" "matchesAddress (studentAddress f)"
    "studentAddress f = ''0x52908400098527886E0F7030069857D2E4169EE7''"
    "degreeLabel f = ''BSc (2024)''" "institution f = ''I1''"
    by (simp_all add: f_def sampleForm_address sample_label) (simp_all add: sampleForm_def)
  have c0: "formData s0 = f" "d_walletAddress s0 = None" "d_calls s0 = []"
    by (simp_all add: s0_def d_initial_def)
  have c1: "formData t1 = f" "d_walletAddress t1 = None" "d_calls t1 = d_calls s1"
    using c0 by (simp_all add: t1_def s1_def)
  have i0: "indexSucceeds (issuer ''1'' (Inr ())) s0 r h" for r h
    by (simp add: indexSucceeds_def c0)
  have i1: "indexSucceeds (issuer ''2'' (Inr ())) t1 r h" for r h
    by (simp add: indexSucceeds_def c1)
  have m1: "filter isMint (d_calls s1) =
      [IssueCredential ''0x52908400098527886E0F7030069857D2E4169EE7'' ''Qmpdf'' ''BSc (2024)'' ''I1'']"
    using handleSubmit_mints [of s0 "''pdf''" "issuer ''1'' (Inr ())" "''Qmpdf''"] fd c0
    by (simp add: s1_def)
  have m2: "filter isMint (d_calls s2) = filter isMint (d_calls s1) @
      [IssueCredential ''0x52908400098527886E0F7030069857D2E4169EE7'' ''Qmpdf'' ''BSc (2024)'' ''I1'']"
    using handleSubmit_mints [of t1 "''pdf''" "issuer ''2'' (Inr ())" "''Qmpdf''"] fd c1
    by (simp add: s2_def)
  have r1: "success s1 = Some \<lparr> tokenId_of = ''1'', txHash_of = ''0xT1'' \<rparr>"
    using handleSubmit_succeeds(1) [of s0 "''pdf''" "issuer ''1'' (Inr ())" "''Qmpdf''"
        "\<lparr> tokenId_of = ''1'', txHash_of = ''0xT1'' \<rparr>"] fd c0 i0
    by (simp add: s1_def)
  have r2: "success s2 = Some \<lparr> tokenId_of = ''2'', txHash_of = ''0xT2'' \<rparr>"
    using handleSubmit_succeeds(1) [of t1 "''pdf''" "issuer ''2'' (Inr ())" "''Qmpdf''"
        "\<lparr> tokenId_of = ''2'', txHash_of = ''0xT2'' \<rparr>"] fd c1 i1
    by (simp add: s2_def)
  show ?thesis
    unfolding Let_def f_def [symmetric] s0_def [symmetric] s1_def [symmetric] t1_def [symmetric]
      s2_def [symmetric]
    using m1 m2 r1 r2 by simp
qed

text \<open>
  C3, amended. Every call of \<^verbatim>\<open>handleSubmit\<close> on a valid form whose upload resolves
  submits one mint request, \<^verbatim>\<open>issueCredential(studentAddress, ipfsHash, label, institution)\<close>,
  without an idempotency key: two calls with the same form submit two requests. Each
  call that completes reports the result that the ledger returned to its own request.
\<close>

theorem each_submission_mints:
  assumes form: "formData s = f" "document f = Some doc" "matchesAddress (studentAddress f)"
    and first: "uploadToIPFS e1 doc = Inr h1"
      "issueCredential e1 (studentAddress f) h1 (degreeLabel f) (institution f) = Inr r1"
      "indexSucceeds e1 s r1 h1"
    and second: "uploadToIPFS e2 doc = Inr h2"
      "issueCredential e2 (studentAddress f) h2 (degreeLabel f) (institution f) = Inr r2"
      "indexSucceeds e2 ((handleSubmit e1 s)\<lparr>formData := f\<rparr>) r2 h2"
  shows "let s1 = handleSubmit e1 s;
             s2 = handleSubmit e2 (s1\<lparr>formData := f\<rparr>)
         in filter isMint (d_calls s2) =
              filter isMint (d_calls s) @
                [IssueCredential (studentAddress f) h1 (degreeLabel f) (institution f),
                 IssueCredential (studentAddress f) h2 (degreeLabel f) (institution f)]
          \<and> success s1 = Some r1 \<and> success s2 = Some r2"
proof -
  define s1 where "s1 = handleSubmit e1 s"
  define t1 where "t1 = s1\<lparr>formData := f\<rparr>"
  have d0: "document (formData s) = Some doc" "matchesAddress (studentAddress (formData s))"
    using form by simp_all
  have d1: "document (formData t1) = Some doc" "matchesAddress (studentAddress (formData t1))"
    "formData t1 = f" "d_calls t1 = d_calls s1"
    using form by (simp_all add: t1_def)
  have m1: "filter isMint (d_calls s1) = filter isMint (d_calls s) @
      [IssueCredential (studentAddress f) h1 (degreeLabel f) (institution f)]"
    using handleSubmit_mints [OF d0 first(1)] form(1) by (simp add: s1_def)
  have m2: "filter isMint (d_calls (handleSubmit e2 t1)) = filter isMint (d_calls t1) @
      [IssueCredential (studentAddress f) h2 (degreeLabel f) (institution f)]"
    using handleSubmit_mints [OF d1(1,2) second(1)] d1(3) by simp
  have r1: "success s1 = Some r1"
    using handleSubmit_succeeds(1) [OF d0 first(1)] first(2,3) form(1) by (simp add: s1_def)
  have r2: "success (handleSubmit e2 t1) = Some r2"
    using handleSubmit_succeeds(1) [OF d1(1,2) second(1)] second(2,3) d1(3)
    by (simp add: t1_def s1_def)
  show ?thesis
    unfolding Let_def s1_def [symmetric] t1_def [symmetric]
    using m1 m2 r1 r2 d1(4) by simp
qed

theorem each_submission_mints_witness:
  "let f = sampleForm (Some ''pdf'');
       s1 = handleSubmit (issuer ''7'' (Inr ())) (d_initial\<lparr>formData := f\<rparr>);
       s2 = handleSubmit (issuer ''8'' (Inr ())) (s1\<lparr>formData := f\<rparr>)
   in length (filter isMint (d_calls s2)) = 2
    \<and> success s1 = Some \<lparr> tokenId_of = ''7'', txHash_of = ''0xT7'' \<rparr>
    \<and> success s2 = Some \<lparr> tokenId_of = ''8'', txHash_of = ''0xT8'' \<rparr>"
proof -
  define f where "f = sampleForm (Some ''pdf'')"
  define s0 where "s0 = d_initial\<lparr>formData := f\<rparr>"
  have fd: "formData s0 = f" "document f = Some ''pdf''" "matchesAddress (studentAddress f)"
    by (simp_all add: s0_def f_def sampleForm_address) (simp add: sampleForm_def)
  have c0: "d_walletAddress s0 = None" "d_calls s0 = []"
    by (simp_all add: s0_def d_initial_def)
  have u: "uploadToIPFS (issuer tid (Inr ())) ''pdf'' = Inr ''Qmpdf''" for tid
    by simp
  have m: "issueCredential (issuer tid (Inr ())) (studentAddress f) ''Qmpdf'' (degreeLabel f)
      (institution f) = Inr \<lparr> tokenId_of = tid, txHash_of = ''0xT'' @ tid \<rparr>" for tid
    by simp
  have i0: "indexSucceeds (issuer ''7'' (Inr ())) s0 r h" for r h
    by (simp add: indexSucceeds_def c0)
  have i1: "indexSucceeds (issuer ''8'' (Inr ()))
      ((handleSubmit (issuer ''7'' (Inr ())) s0)\<lparr>formData := f\<rparr>) r h" for r h
    by (simp add: indexSucceeds_def c0)
  from each_submission_mints [OF fd u m i0 u m i1] c0
  show ?thesis
    unfolding Let_def f_def [symmetric] s0_def [symmetric] by simp
qed

end
